theory Spec2Isabelle
  imports Complex_Main "HOL-Library.AList" "HOL-Library.Sublist" "HOL-Library.Code_Target_Nat"
begin

section \<open>Python values\<close>

text \<open>
  A Python \<open>str\<close> is a sequence of Unicode code points, so it is modelled as a list of
  code points; the euro sign (U+20AC) and the non-breaking space (U+00A0) that the price
  parser removes are single elements of such a list.
\<close>

type_synonym pystr = "nat list"

definition lit :: "string \<Rightarrow> pystr" where
  "lit s = map of_char s"

definition euro :: nat where
  "euro = 8364"

definition nbsp :: nat where
  "nbsp = 160"

definition dot :: nat where
  "dot = 46"

definition comma :: nat where
  "comma = 44"

text \<open>
  The values a field of a listing, of a product profile or of a judgment payload carries:
  the JSON scalars \<open>null\<close>, booleans, integers and strings. Float and container values
  of these fields are outside the model.
\<close>

datatype pyval = PNone | PBool bool | PInt int | PStr pystr

text \<open>Python truthiness, as used by \<open>or\<close>, \<open>not\<close> and \<open>if\<close>.\<close>

fun truthy :: "pyval \<Rightarrow> bool" where
  "truthy PNone = False"
| "truthy (PBool b) = b"
| "truthy (PInt n) = (n \<noteq> 0)"
| "truthy (PStr s) = (s \<noteq> [])"

text \<open>\<open>d.get(k)\<close> followed by a truthiness test: an absent key gives \<open>None\<close>, which is falsy.\<close>

definition truthy_opt :: "pyval option \<Rightarrow> bool" where
  "truthy_opt v = (case v of None \<Rightarrow> False | Some x \<Rightarrow> truthy x)"

text \<open>\<open>d.get(k) is True\<close>: only the boolean \<open>True\<close> itself passes.\<close>

definition is_True :: "pyval option \<Rightarrow> bool" where
  "is_True v = (v = Some (PBool True))"

subsection \<open>Floats\<close>

text \<open>
  A Python float is an IEEE 754 binary64 number. The floats of this program are never
  negative and never NaN (they come from strings of digits and dots, from sums and halves
  of such values, and from a quotient of two counts), so a float is either a finite value,
  given exactly as a rational, or positive infinity.

  \<open>nearest_double\<close> is rounding to the nearest binary64 value, ties to even, of a
  non-negative rational: \<open>ilog2\<close> is the binary exponent, clamped at the subnormal range,
  and the spacing of the doubles in that binade is \<open>pow2 (e - 52)\<close>.
\<close>

datatype pyfloat = Fin rat | PInf

fun blen :: "nat \<Rightarrow> nat" where
  "blen n = (if n = 0 then 0 else Suc (blen (n div 2)))"

declare blen.simps [simp del]

definition pow2 :: "int \<Rightarrow> rat" where
  "pow2 e = (if 0 \<le> e then 2 ^ nat e else 1 / 2 ^ nat (- e))"

definition ilog2 :: "rat \<Rightarrow> int" where
  "ilog2 x = (if 1 \<le> x then int (blen (nat \<lfloor>x\<rfloor>)) - 1
              else - int (blen (nat (\<lceil>1 / x\<rceil> - 1))))"

definition round_half_even :: "rat \<Rightarrow> int" where
  "round_half_even x = (let f = \<lfloor>x\<rfloor>; d = x - of_int f in
     if d < 1 / 2 then f else if 1 / 2 < d then f + 1 else if even f then f else f + 1)"

definition nearest_double :: "rat \<Rightarrow> rat" where
  "nearest_double x = (if x = 0 then 0 else
     let e = max (ilog2 x) (- 1022); q = pow2 (e - 52)
     in of_int (round_half_even (x / q)) * q)"

definition fl :: "rat \<Rightarrow> pyfloat" where
  "fl x = (let y = nearest_double x in if y \<noteq> 0 \<and> 1024 \<le> ilog2 y then PInf else Fin y)"

section \<open>Price parser (price\_calculation.py)\<close>

subsection \<open>String operations of the interpreter\<close>

text \<open>\<open>str.strip()\<close> removes the characters for which \<open>str.isspace\<close> holds from both ends.\<close>

definition is_space :: "nat \<Rightarrow> bool" where
  "is_space c \<longleftrightarrow> (9 \<le> c \<and> c \<le> 13) \<or> (28 \<le> c \<and> c \<le> 32) \<or> c = 133 \<or> c = 160
     \<or> c = 5760 \<or> (8192 \<le> c \<and> c \<le> 8202) \<or> c = 8232 \<or> c = 8233 \<or> c = 8239
     \<or> c = 8287 \<or> c = 12288"

definition strip :: "pystr \<Rightarrow> pystr" where
  "strip s = rev (dropWhile is_space (rev (dropWhile is_space s)))"

text \<open>\<open>s.replace(c, '')\<close> for a one-character \<open>c\<close>, and \<open>s.replace(a, b)\<close> for two characters.\<close>

definition remove_char :: "nat \<Rightarrow> pystr \<Rightarrow> pystr" where
  "remove_char c s = filter (\<lambda>x. x \<noteq> c) s"

definition replace_char :: "nat \<Rightarrow> nat \<Rightarrow> pystr \<Rightarrow> pystr" where
  "replace_char a b s = map (\<lambda>x. if x = a then b else x) s"

text \<open>
  \<open>s.replace('VB', '')\<close>: the occurrences are found from the left and do not overlap;
  the text after a removed occurrence is scanned on, the result is not scanned again.
\<close>

fun remove_VB :: "pystr \<Rightarrow> pystr" where
  "remove_VB (a # b # s) = (if a = 86 \<and> b = 66 then remove_VB s else a # remove_VB (b # s))"
| "remove_VB s = s"

text \<open>
  The class \<open>\d\<close> of a \<open>str\<close> pattern is Unicode category Nd. Its characters come in runs
  of ten, the digits 0 to 9 in order; \<open>digit_zeros\<close> lists the zero of every run
  (Unicode 14.0, the table of CPython 3.11). The ASCII digits are the run at 48.
\<close>

definition digit_zeros :: "nat list" where
  "digit_zeros = [48, 1632, 1776, 1984, 2406, 2534, 2662, 2790, 2918, 3046, 3174, 3302,
     3430, 3558, 3664, 3792, 3872, 4160, 4240, 6112, 6160, 6470, 6608, 6784, 6800, 6992,
     7088, 7232, 7248, 42528, 43216, 43264, 43472, 43504, 43600, 44016, 65296, 66720,
     68912, 69734, 69872, 69942, 70096, 70384, 70736, 70864, 71248, 71360, 71472, 71904,
     72016, 72784, 73040, 73120, 92768, 92864, 93008, 120782, 120792, 120802, 120812,
     120822, 123200, 123632, 125264, 130032]"

definition digit_value :: "nat \<Rightarrow> nat option" where
  "digit_value c = map_option (\<lambda>z. c - z) (find (\<lambda>z. z \<le> c \<and> c < z + 10) digit_zeros)"

definition is_digit :: "nat \<Rightarrow> bool" where
  "is_digit c = (digit_value c \<noteq> None)"

text \<open>
  \<open>_PRICE_RE = re.compile(r"[\d\.,]+")\<close> and \<open>_PRICE_RE.search(s)\<close>: the leftmost
  match, extended greedily, that is the first maximal run of class characters.
\<close>

definition is_price_char :: "nat \<Rightarrow> bool" where
  "is_price_char c \<longleftrightarrow> is_digit c \<or> c = dot \<or> c = comma"

definition price_re_search :: "pystr \<Rightarrow> pystr option" where
  "price_re_search s =
     (case takeWhile is_price_char (dropWhile (\<lambda>c. \<not> is_price_char c) s) of
        [] \<Rightarrow> None
      | c # m \<Rightarrow> Some (c # m))"

text \<open>
  \<open>float(num)\<close> on a string of decimal digits and dots, the only strings the parser
  passes to it: digits, at most one dot, at least one digit; anything else raises
  \<open>ValueError\<close>. The result is the double nearest to the decimal value.
\<close>

definition digits_value :: "pystr \<Rightarrow> nat" where
  "digits_value ds = foldl (\<lambda>a c. 10 * a + (case digit_value c of Some d \<Rightarrow> d | None \<Rightarrow> 0)) 0 ds"

definition decimal_value :: "pystr \<Rightarrow> pystr \<Rightarrow> rat" where
  "decimal_value ip fp = of_nat (digits_value ip) + of_nat (digits_value fp) / 10 ^ length fp"

definition py_float :: "pystr \<Rightarrow> pyfloat option" where
  "py_float s =
     (let ip = takeWhile is_digit s; rest = dropWhile is_digit s in
      case rest of
        [] \<Rightarrow> if ip = [] then None else Some (fl (decimal_value ip []))
      | c # fp \<Rightarrow>
          if c = dot \<and> list_all is_digit fp \<and> (ip \<noteq> [] \<or> fp \<noteq> [])
          then Some (fl (decimal_value ip fp)) else None)"

subsection \<open>\_parse\_price\<close>

text \<open>The three \<open>ValueError\<close>s of \<open>_parse_price\<close>, by their messages.\<close>

datatype parse_error = Invalid_price | No_numeric_part | Could_not_parse

definition normalize_locale :: "pystr \<Rightarrow> pystr" where
  "normalize_locale num =
     (if dot \<in> set num \<and> comma \<in> set num
      then replace_char comma dot (remove_char dot num)
      else if comma \<in> set num \<and> dot \<notin> set num
      then replace_char comma dot num
      else num)"

definition strip_tokens :: "pystr \<Rightarrow> pystr" where
  "strip_tokens price_str =
     (let s = strip price_str;
          s = remove_char euro s;
          s = remove_char euro s;
          s = remove_VB s;
          s = remove_char nbsp s
      in strip s)"

fun parse_price :: "pyval \<Rightarrow> parse_error + pyfloat" where
  "parse_price (PStr price_str) =
     (if price_str = [] then Inl Invalid_price
      else case price_re_search (strip_tokens price_str) of
             None \<Rightarrow> Inl No_numeric_part
           | Some num \<Rightarrow>
               (case py_float (normalize_locale num) of
                  None \<Rightarrow> Inl Could_not_parse
                | Some x \<Rightarrow> Inr x))"
| "parse_price _ = Inl Invalid_price"

section \<open>Price statistics calculator (price\_calculation.py)\<close>

subsection \<open>Float operations\<close>

text \<open>The order of the floats: infinity is above every finite value.\<close>

instantiation pyfloat :: linorder
begin

fun less_eq_pyfloat :: "pyfloat \<Rightarrow> pyfloat \<Rightarrow> bool" where
  "less_eq_pyfloat (Fin a) (Fin b) = (a \<le> b)"
| "less_eq_pyfloat PInf (Fin b) = False"
| "less_eq_pyfloat x PInf = True"

definition less_pyfloat :: "pyfloat \<Rightarrow> pyfloat \<Rightarrow> bool" where
  "less_pyfloat x y = (x \<le> y \<and> \<not> y \<le> x)"

instance
proof
  fix x y z :: pyfloat
  show "(x < y) = (x \<le> y \<and> \<not> y \<le> x)" by (simp add: less_pyfloat_def)
  show "x \<le> x" by (cases x) simp_all
  show "x \<le> y \<Longrightarrow> y \<le> z \<Longrightarrow> x \<le> z" by (cases x; cases y; cases z) simp_all
  show "x \<le> y \<Longrightarrow> y \<le> x \<Longrightarrow> x = y" by (cases x; cases y) simp_all
  show "x \<le> y \<or> y \<le> x" by (cases x; cases y) auto
qed

end

text \<open>Float addition, halving, and \<open>round(x, 2)\<close>, each correctly rounded.\<close>

fun fadd :: "pyfloat \<Rightarrow> pyfloat \<Rightarrow> pyfloat" where
  "fadd (Fin a) (Fin b) = fl (a + b)"
| "fadd _ _ = PInf"

fun fhalf :: "pyfloat \<Rightarrow> pyfloat" where
  "fhalf (Fin a) = fl (a / 2)"
| "fhalf PInf = PInf"

fun round2 :: "pyfloat \<Rightarrow> pyfloat" where
  "round2 (Fin a) = fl (of_int (round_half_even (a * 100)) / 100)"
| "round2 PInf = PInf"

text \<open>
  \<open>statistics.median\<close>: the data are sorted; an odd count gives the middle value, an
  even count the mean of the two middle values; no data raises \<open>StatisticsError\<close>.
\<close>

definition median :: "pyfloat list \<Rightarrow> pyfloat option" where
  "median xs =
     (let d = sort xs; n = length d in
      if n = 0 then None
      else if n mod 2 = 1 then Some (d ! (n div 2))
      else Some (fhalf (fadd (d ! (n div 2 - 1)) (d ! (n div 2)))))"

subsection \<open>Listings\<close>

text \<open>
  An evaluated listing is a dict; these are the keys the program reads. A field is
  \<open>None\<close> when the key is absent, so \<open>it.get(k)\<close> is the field with \<open>None\<close> read as
  Python's \<open>None\<close>.
\<close>

record item =
  item_id :: "pyval option"
  price :: "pyval option"
  price_str :: "pyval option"
  is_match :: "pyval option"
  match_status :: "pyval option"

text \<open>\<open>str(v)\<close>.\<close>

fun digits_of :: "nat \<Rightarrow> pystr" where
  "digits_of n = (if n < 10 then [48 + n] else digits_of (n div 10) @ [48 + n mod 10])"

declare digits_of.simps [simp del]

fun py_str :: "pyval \<Rightarrow> pystr" where
  "py_str PNone = lit ''None''"
| "py_str (PBool b) = (if b then lit ''True'' else lit ''False'')"
| "py_str (PInt n) = (if n < 0 then 45 # digits_of (nat (- n)) else digits_of (nat n))"
| "py_str (PStr s) = s"

definition py_str_opt :: "pyval option \<Rightarrow> pystr" where
  "py_str_opt v = (case v of None \<Rightarrow> lit ''None'' | Some x \<Rightarrow> py_str x)"

text \<open>\<open>it.get('price') or it.get('price_str') or ''\<close>\<close>

definition price_field :: "item \<Rightarrow> pyval" where
  "price_field it =
     (if truthy_opt (price it) then (case price it of Some v \<Rightarrow> v | None \<Rightarrow> PStr [])
      else if truthy_opt (price_str it) then (case price_str it of Some v \<Rightarrow> v | None \<Rightarrow> PStr [])
      else PStr [])"

definition item_price :: "item \<Rightarrow> parse_error + pyfloat" where
  "item_price it = parse_price (PStr (py_str (price_field it)))"

subsection \<open>calculate\_from\_evaluation\<close>

record price_summary =
  stat_min :: pyfloat
  stat_max :: pyfloat
  stat_median :: pyfloat

record statistics =
  count_prices_parsed :: nat
  count_listings :: nat
  price_statistics_all :: "price_summary option"
  price_statistics_matches :: "price_summary option"

text \<open>
  The loop over the items: the state is \<open>(prices, prices_from_matches, parsed_count)\<close>;
  an item whose price raises in \<open>_parse_price\<close> leaves it unchanged.
\<close>

definition collect_step :: "pyfloat list \<times> pyfloat list \<times> nat \<Rightarrow> item \<Rightarrow> pyfloat list \<times> pyfloat list \<times> nat" where
  "collect_step st it =
     (case st of (prices, prices_from_matches, parsed_count) \<Rightarrow>
        (case item_price it of
           Inl e \<Rightarrow> (prices, prices_from_matches, parsed_count)
         | Inr p \<Rightarrow>
             (prices @ [p],
              if is_True (is_match it) then prices_from_matches @ [p] else prices_from_matches,
              parsed_count + 1)))"

definition collect :: "item list \<Rightarrow> pyfloat list \<times> pyfloat list \<times> nat" where
  "collect items = foldl collect_step ([], [], 0) items"

text \<open>The \<open>min\<close>/\<open>max\<close>/\<open>median\<close> dict of a price collection, \<open>None\<close> when it is empty.\<close>

definition summary :: "pyfloat list \<Rightarrow> price_summary option" where
  "summary prices =
     (case prices of
        [] \<Rightarrow> None
      | p # ps \<Rightarrow>
          (case median prices of
             None \<Rightarrow> None
           | Some m \<Rightarrow>
               Some \<lparr>stat_min = round2 (fold min ps p),
                     stat_max = round2 (fold max ps p),
                     stat_median = round2 m\<rparr>))"

text \<open>
  The argument is the payload's \<open>individual_results_evaluation\<close> entry, \<open>None\<close> when the
  key is absent or null: \<open>evaluation_payload.get('individual_results_evaluation', []) or []\<close>.
\<close>

definition calculate_from_evaluation :: "item list option \<Rightarrow> statistics" where
  "calculate_from_evaluation payload =
     (let items = (case payload of None \<Rightarrow> [] | Some xs \<Rightarrow> xs) in
      case collect items of (prices, prices_from_matches, parsed_count) \<Rightarrow>
        \<lparr>count_prices_parsed = parsed_count,
         count_listings = length items,
         price_statistics_all = summary prices,
         price_statistics_matches = summary prices_from_matches\<rparr>)"

section \<open>Evaluation metrics tool (tools/metrics\_tools.py)\<close>

text \<open>
  The argument of \<open>_run\<close> is a list or a string. \<open>json.loads\<close> belongs to the interpreter
  and is a parameter: it gives \<open>None\<close> where it raises. A decoded value is a list of
  elements or something else; an element is a dict or not.
\<close>

datatype elem = Other_elem | Dict_elem item

datatype jvalue = Json_list "elem list" | Json_other

datatype evaluations = Eval_str pystr | Eval_value jvalue

datatype metrics_error = Invalid_json_list | Empty_dataset

record metrics =
  m_count_positive :: nat
  m_count_negative :: nat
  m_match_percentage :: pyfloat
  m_total_listings :: nat
  m_overall_sufficiency :: pystr

definition is_positive :: "elem \<Rightarrow> bool" where
  "is_positive i = (case i of Other_elem \<Rightarrow> False
     | Dict_elem d \<Rightarrow> is_True (is_match d) \<or> is_True (match_status d))"

text \<open>\<open>round((pos / total * 100), 2) if total > 0 else 0.0\<close>\<close>

definition match_pct :: "nat \<Rightarrow> nat \<Rightarrow> pyfloat" where
  "match_pct pos n =
     (if n > 0
      then round2 (fl (nearest_double (of_nat pos / of_nat n) * 100))
      else Fin 0)"

definition metrics_of :: "elem list \<Rightarrow> metrics" where
  "metrics_of items =
     (let pos = length (filter is_positive items);
          n = length items;
          pct = match_pct pos n;
          is_sufficient = (Fin 50 \<le> pct \<and> 3 \<le> pos)
      in \<lparr>m_count_positive = pos,
          m_count_negative = n - pos,
          m_match_percentage = pct,
          m_total_listings = n,
          m_overall_sufficiency = (if is_sufficient then lit ''sufficient'' else lit ''not sufficient'')\<rparr>)"

definition metrics_run :: "(pystr \<Rightarrow> jvalue option) \<Rightarrow> evaluations \<Rightarrow> metrics_error + metrics" where
  "metrics_run json_loads evaluations =
     (case (case evaluations of Eval_str s \<Rightarrow> json_loads s | Eval_value v \<Rightarrow> Some v) of
        None \<Rightarrow> Inl Invalid_json_list
      | Some Json_other \<Rightarrow> Inl Empty_dataset
      | Some (Json_list items) \<Rightarrow>
          if items = [] then Inl Empty_dataset else Inr (metrics_of items))"

section \<open>Workflow (workflow.py)\<close>

subsection \<open>Data\<close>

text \<open>
  The judgment payload \<open>eval_data\<close>, a dict: every key may be absent. For the three
  counts \<open>None\<close> is an absent key or a null, which \<open>eval_data.get\<close> does not tell apart;
  for the other keys \<open>None\<close> is an absent key. \<open>match_percentage\<close> is a JSON number,
  given by its exact value.
\<close>

record eval_data =
  individual_results_evaluation :: "item list option"
  e_count_positive :: "int option"
  e_count_negative :: "int option"
  e_total_listings :: "int option"
  e_match_percentage :: "rat option"
  overall_sufficiency :: "pyval option"
  query_improvement_feedback :: "pyval option"

text \<open>An entry of \<open>history\<close> (\<open>step_res\<close>).\<close>

record step_res =
  iteration :: nat
  query :: pystr
  evaluation :: eval_data
  count_positive :: int
  count_negative :: int
  total_listings :: int
  match_percentage :: rat
  price_statistics :: statistics

text \<open>
  \<open>best_res\<close> is the dict \<open>{"match_percentage": 0}\<close> until an iteration replaces it by
  its \<open>step_res\<close>; the fatal returns carry the empty dict.
\<close>

datatype best_result = Empty_dict | Pct_only rat | Step step_res

text \<open>\<open>best_res.get("match_percentage", -1)\<close> and \<open>best_res.get("iteration", 0)\<close>\<close>

fun best_pct :: "best_result \<Rightarrow> rat" where
  "best_pct Empty_dict = - 1"
| "best_pct (Pct_only p) = p"
| "best_pct (Step r) = match_percentage r"

fun best_iter :: "best_result \<Rightarrow> nat" where
  "best_iter (Step r) = iteration r"
| "best_iter _ = 0"

text \<open>
  The image analysis after \<open>_parse\<close>: a dict of scalar fields when the output was a JSON
  object, the stripped text otherwise.
\<close>

datatype img_analysis = Img_text pystr | Img_dict "(pystr \<times> pyval) list"

text \<open>
  A query output after \<open>_parse\<close>: a dict, given by its \<open>search_query\<close> entry if any and
  by its \<open>str()\<close>, or another value, given by its \<open>str()\<close>.
\<close>

datatype query_data = Query_dict "pystr option" pystr | Query_other pystr

fun query_of :: "query_data \<Rightarrow> pystr" where
  "query_of (Query_dict (Some q) s) = q"
| "query_of (Query_dict None s) = s"
| "query_of (Query_other s) = s"

record final_result =
  success :: bool
  error :: "pyval option"
  item_description :: "pyval option"
  best_iteration :: nat
  best_result :: best_result
  history :: "step_res list"

subsection \<open>The collaborators\<close>

text \<open>
  What a collaborator call does: it raises \<open>RecursionError\<close>, raises another exception
  (given by its \<open>str()\<close>), or returns. The scraped-data file as the controller finds it
  after the scraper ran: missing; unreadable (\<open>open\<close> or \<open>json.load\<close> raises); holding a
  falsy value; holding a truthy value without a length (\<open>len\<close> raises inside the
  \<open>try\<close>); or holding a non-empty sized value. Each collaborator is called at most once
  per iteration index, so its answers are indexed by the iteration.
\<close>

datatype 'a call = Raises_recursion | Raises pystr | Returns 'a

datatype scraped = File_missing | File_unreadable | File_falsy | File_unsized | File_items nat

datatype eval_output = Not_a_dict | Eval_dict eval_data

record env =
  analysis_and_query_crew :: "(img_analysis \<times> query_data) call"
  query_regeneration_crew :: "nat \<Rightarrow> query_data call"
  market_search :: bool
  scraper_file :: "nat \<Rightarrow> scraped"
  evaluation_crew :: "nat \<Rightarrow> eval_output call"

text \<open>The calls the controller makes, in order, and the start of every loop pass.\<close>

datatype event =
    Analysis_call
  | Iteration_start nat
  | Regeneration_call nat
  | Scraper_call nat pystr
  | Evaluation_call nat pystr

record run_result =
  result :: final_result
  calls :: "event list"

subsection \<open>\_finalize\<close>

definition img_get :: "img_analysis \<Rightarrow> pystr \<Rightarrow> pyval option" where
  "img_get img k = (case img of Img_text t \<Rightarrow> None | Img_dict d \<Rightarrow> map_of d k)"

text \<open>\<open>d.get(k)\<close> as a value: an absent key and a null are both \<open>None\<close>.\<close>

definition get_value :: "pyval option \<Rightarrow> pyval option" where
  "get_value v = (case v of Some PNone \<Rightarrow> None | _ \<Rightarrow> v)"

definition finalize :: "bool \<Rightarrow> nat \<Rightarrow> best_result \<Rightarrow> step_res list \<Rightarrow> img_analysis \<Rightarrow> final_result" where
  "finalize succ iter best hist img =
     \<lparr>success = succ,
      error = None,
      item_description = get_value (img_get img (lit ''description'')),
      best_iteration = iter,
      best_result = best,
      history = hist\<rparr>"

text \<open>The dict of the three fatal returns of \<open>run\<close>.\<close>

definition fatal :: "pyval option \<Rightarrow> final_result" where
  "fatal err =
     \<lparr>success = False,
      error = err,
      item_description = None,
      best_iteration = 0,
      best_result = Empty_dict,
      history = []\<rparr>"

subsection \<open>One pass of the loop\<close>

record loop_state =
  st_history :: "step_res list"
  best_res :: best_result
  current_query_json :: query_data
  feedback :: pyval
  all_unique_matches :: "(pystr \<times> item) list"
  st_calls :: "event list"

datatype flow = Next loop_state | Stop run_result

definition log :: "event \<Rightarrow> loop_state \<Rightarrow> loop_state" where
  "log e st = st\<lparr>st_calls := st_calls st @ [e]\<rparr>"

text \<open>
  The accumulator is a dict: assigning to a present key replaces the value in place,
  assigning to a new key appends. The key is \<open>str(m.get("id"))\<close>.
\<close>

definition merge_matches :: "(pystr \<times> item) list \<Rightarrow> item list \<Rightarrow> (pystr \<times> item) list" where
  "merge_matches acc current_matches =
     foldl (\<lambda>a m. AList.update (py_str_opt (item_id m)) m a) acc current_matches"

definition results_of :: "eval_data \<Rightarrow> item list" where
  "results_of ed = (case individual_results_evaluation ed of None \<Rightarrow> [] | Some xs \<Rightarrow> xs)"

definition current_matches_of :: "eval_data \<Rightarrow> item list" where
  "current_matches_of ed =
     filter (\<lambda>item. truthy_opt (is_match item) \<or> truthy_opt (match_status item)) (results_of ed)"

text \<open>
  The \<open>step_res\<close> of a pass: the statistics of the accumulator, the counts as reported or
  else recounted from the \<open>is_match\<close> flags, and \<open>eval_data.get("match_percentage", 0)\<close>.
\<close>

definition make_step :: "nat \<Rightarrow> pystr \<Rightarrow> eval_data \<Rightarrow> (pystr \<times> item) list \<Rightarrow> step_res" where
  "make_step i q ed acc =
     (let stats = calculate_from_evaluation (Some (map snd acc));
          cp = (case e_count_positive ed of
                  Some n \<Rightarrow> n
                | None \<Rightarrow> int (length (filter (\<lambda>e. truthy_opt (is_match e)) (results_of ed))));
          cn = (case e_count_negative ed of
                  Some n \<Rightarrow> n
                | None \<Rightarrow> int (length (filter (\<lambda>e. \<not> truthy_opt (is_match e)) (results_of ed))));
          tl = (case e_total_listings ed of Some n \<Rightarrow> n | None \<Rightarrow> cp + cn);
          match_pct = (case e_match_percentage ed of Some p \<Rightarrow> p | None \<Rightarrow> 0)
      in \<lparr>iteration = i, query = q, evaluation = ed, count_positive = cp,
          count_negative = cn, total_listings = tl, match_percentage = match_pct,
          price_statistics = stats\<rparr>)"

text \<open>\<open>if match_pct > best_res.get("match_percentage", -1): best_res = step_res\<close>\<close>

definition track_step :: "best_result \<Rightarrow> step_res \<Rightarrow> best_result" where
  "track_step best r = (if best_pct best < match_percentage r then Step r else best)"

definition sufficient :: "pyval option" where
  "sufficient = Some (PStr (lit ''sufficient''))"

text \<open>Steps 4 and 5 of a pass, after the evaluation returned.\<close>

definition complete :: "img_analysis \<Rightarrow> nat \<Rightarrow> pystr \<Rightarrow> eval_data \<Rightarrow> loop_state \<Rightarrow> flow" where
  "complete img i q ed st =
     (let acc = merge_matches (all_unique_matches st) (current_matches_of ed);
          step = make_step i q ed acc;
          hist = st_history st @ [step];
          best = track_step (best_res st) step
      in if overall_sufficiency ed = sufficient
         then Stop \<lparr>result = finalize True i best hist img, calls = st_calls st\<rparr>
         else Next (st\<lparr>st_history := hist, best_res := best, all_unique_matches := acc,
                       feedback := (case query_improvement_feedback ed of
                                      Some f \<Rightarrow> f | None \<Rightarrow> PStr (lit ''None''))\<rparr>))"

text \<open>A value that is not a dict is replaced by \<open>{"individual_results_evaluation": []}\<close>.\<close>

definition as_eval_data :: "eval_output \<Rightarrow> eval_data" where
  "as_eval_data out =
     (case out of
        Eval_dict ed \<Rightarrow> ed
      | Not_a_dict \<Rightarrow>
          \<lparr>individual_results_evaluation = Some [], e_count_positive = None,
           e_count_negative = None, e_total_listings = None, e_match_percentage = None,
           overall_sufficiency = None, query_improvement_feedback = None\<rparr>)"

text \<open>Step 1: iterations after the first regenerate the query; an exception skips the pass.\<close>

definition query_step :: "env \<Rightarrow> nat \<Rightarrow> loop_state \<Rightarrow> loop_state + loop_state" where
  "query_step e i st =
     (if 1 < i
      then (case query_regeneration_crew e i of
              Returns q \<Rightarrow> Inr ((log (Regeneration_call i) st)\<lparr>current_query_json := q\<rparr>)
            | Raises_recursion \<Rightarrow> Inl (log (Regeneration_call i) st)
            | Raises m \<Rightarrow> Inl (log (Regeneration_call i) st))
      else Inr st)"

text \<open>
  Steps 1 to 3 and the evaluation call: \<open>Inl\<close> is a \<open>continue\<close>, \<open>Inr\<close> carries the query
  and the judgment payload into steps 4 and 5.
\<close>

definition attempt :: "env \<Rightarrow> nat \<Rightarrow> loop_state \<Rightarrow> loop_state + (pystr \<times> eval_data \<times> loop_state)" where
  "attempt e i st0 =
     (case query_step e i (log (Iteration_start i) st0) of
        Inl st \<Rightarrow> Inl st
      | Inr st1 \<Rightarrow>
          let q = query_of (current_query_json st1);
              st2 = (if market_search e then log (Scraper_call i q) st1 else st1)
          in (case scraper_file e i of
                File_items n \<Rightarrow>
                  let st3 = log (Evaluation_call i q) st2
                  in (case evaluation_crew e i of
                        Returns out \<Rightarrow> Inr (q, as_eval_data out, st3)
                      | Raises_recursion \<Rightarrow> Inl st3
                      | Raises m \<Rightarrow> Inl st3)
              | File_missing \<Rightarrow> Inl st2
              | File_unreadable \<Rightarrow> Inl st2
              | File_falsy \<Rightarrow> Inl st2
              | File_unsized \<Rightarrow> Inl st2))"

definition pass :: "env \<Rightarrow> img_analysis \<Rightarrow> nat \<Rightarrow> loop_state \<Rightarrow> flow" where
  "pass e img i st =
     (case attempt e i st of
        Inl st' \<Rightarrow> Next st'
      | Inr (q, ed, st3) \<Rightarrow> complete img i q ed st3)"

subsection \<open>run\<close>

text \<open>\<open>for i in range(1, 4)\<close>, then the return after the loop.\<close>

fun refine :: "env \<Rightarrow> img_analysis \<Rightarrow> nat list \<Rightarrow> loop_state \<Rightarrow> run_result" where
  "refine e img [] st =
     \<lparr>result = finalize False (best_iter (best_res st)) (best_res st) (st_history st) img,
      calls = st_calls st\<rparr>"
| "refine e img (i # is) st =
     (case pass e img i st of
        Next st' \<Rightarrow> refine e img is st'
      | Stop r \<Rightarrow> r)"

definition initial_state :: "query_data \<Rightarrow> loop_state" where
  "initial_state q =
     \<lparr>st_history = [], best_res = Pct_only 0, current_query_json = q,
      feedback = PStr (lit ''None''), all_unique_matches = [], st_calls = [Analysis_call]\<rparr>"

definition has_error :: "img_analysis \<Rightarrow> bool" where
  "has_error img = (case img of Img_text t \<Rightarrow> False | Img_dict d \<Rightarrow> map_of d (lit ''error'') \<noteq> None)"

definition run :: "env \<Rightarrow> run_result" where
  "run e =
     (case analysis_and_query_crew e of
        Raises_recursion \<Rightarrow>
          \<lparr>result = fatal (Some (PStr (lit ''maximum recursion depth exceeded''))),
           calls = [Analysis_call]\<rparr>
      | Raises m \<Rightarrow>
          \<lparr>result = fatal (Some (PStr (take 200 m))), calls = [Analysis_call]\<rparr>
      | Returns (img, q) \<Rightarrow>
          if has_error img
          then \<lparr>result = fatal (Some (case img_get img (lit ''error'') of
                                         Some v \<Rightarrow> v | None \<Rightarrow> PNone)),
                calls = [Analysis_call]\<rparr>
          else refine e img [1, 2, 3] (initial_state q))"

section \<open>Notions used in the properties\<close>

text \<open>
  The best-result tracker as a function of the history: the initial dict, replaced by
  each entry whose percentage is strictly greater.
\<close>

definition track :: "step_res list \<Rightarrow> best_result" where
  "track hist = foldl track_step (Pct_only 0) hist"

text \<open>
  A history entry is derived from its judgment payload: each count is the reported one
  or, when absent, the one recounted from the \<open>is_match\<close> flags; the total is the
  reported one or the sum of the two counts; the percentage is the reported one or 0.
\<close>

definition derived :: "step_res \<Rightarrow> bool" where
  "derived r \<longleftrightarrow>
     (let ed = evaluation r in
      count_positive r = (case e_count_positive ed of Some n \<Rightarrow> n
         | None \<Rightarrow> int (length (filter (\<lambda>e. truthy_opt (is_match e)) (results_of ed)))) \<and>
      count_negative r = (case e_count_negative ed of Some n \<Rightarrow> n
         | None \<Rightarrow> int (length (filter (\<lambda>e. \<not> truthy_opt (is_match e)) (results_of ed)))) \<and>
      total_listings r = (case e_total_listings ed of Some n \<Rightarrow> n
         | None \<Rightarrow> count_positive r + count_negative r) \<and>
      match_percentage r = (case e_match_percentage ed of Some p \<Rightarrow> p | None \<Rightarrow> 0))"

text \<open>The iteration indices of the passes started, read off the calls.\<close>

definition starts :: "event list \<Rightarrow> nat list" where
  "starts cs = concat (map (\<lambda>c. case c of Iteration_start i \<Rightarrow> [i] | _ \<Rightarrow> []) cs)"

text \<open>A pass that is abandoned leaves history, tracker and accumulator as they were.\<close>

definition same_store :: "nat \<Rightarrow> loop_state \<Rightarrow> loop_state \<Rightarrow> bool" where
  "same_store i st st' \<longleftrightarrow> st_history st' = st_history st \<and> best_res st' = best_res st
     \<and> all_unique_matches st' = all_unique_matches st
     \<and> starts (st_calls st') = starts (st_calls st) @ [i]"

text \<open>The invariant of the loop, and what it gives for the value \<open>run\<close> returns.\<close>

definition loop_inv :: "loop_state \<Rightarrow> bool" where
  "loop_inv st \<longleftrightarrow> best_res st = track (st_history st)
     \<and> (\<forall>r\<in>set (st_history st). derived r \<and> overall_sufficiency (evaluation r) \<noteq> sufficient)
     \<and> subseq (map iteration (st_history st)) (starts (st_calls st))"

definition outcome :: "nat list \<Rightarrow> run_result \<Rightarrow> bool" where
  "outcome planned rr \<longleftrightarrow>
     best_result (result rr) = track (history (result rr))
     \<and> (\<forall>r\<in>set (history (result rr)). derived r)
     \<and> (\<forall>r\<in>set (butlast (history (result rr))). overall_sufficiency (evaluation r) \<noteq> sufficient)
     \<and> (success (result rr) \<longrightarrow> history (result rr) \<noteq> []
           \<and> overall_sufficiency (evaluation (last (history (result rr)))) = sufficient
           \<and> best_iteration (result rr) = iteration (last (history (result rr))))
     \<and> (\<not> success (result rr) \<longrightarrow> best_iteration (result rr) = best_iter (best_result (result rr))
           \<and> (\<forall>r\<in>set (history (result rr)). overall_sufficiency (evaluation r) \<noteq> sufficient)
           \<and> starts (calls rr) = planned)
     \<and> subseq (map iteration (history (result rr))) (starts (calls rr))
     \<and> prefix (starts (calls rr)) planned
     \<and> error (result rr) = None"

text \<open>
  The prices the calculator collects from a list of listings, in order; whether a
  listing's price parses; whether the calculator counts a listing as a match.
\<close>

definition parsed_prices :: "item list \<Rightarrow> pyfloat list" where
  "parsed_prices items = concat (map (\<lambda>it. case item_price it of Inl e \<Rightarrow> [] | Inr p \<Rightarrow> [p]) items)"

definition parses :: "item \<Rightarrow> bool" where
  "parses it = (case item_price it of Inl e \<Rightarrow> False | Inr p \<Rightarrow> True)"

definition matched :: "item \<Rightarrow> bool" where
  "matched it = is_True (is_match it)"

text \<open>
  An accumulator whose keys are the string forms of the ids of their entries, and an
  entry without an id.
\<close>

definition keyed :: "(pystr \<times> item) list \<Rightarrow> bool" where
  "keyed acc = list_all (\<lambda>km. fst km = py_str_opt (item_id (snd km))) acc"

definition id_less :: "pystr \<times> item \<Rightarrow> bool" where
  "id_less km = (item_id (snd km) = None)"



section \<open>Concrete inputs\<close>

text \<open>Listings, payloads and collaborator scripts used to run the model on examples.\<close>

definition listing :: "pyval option \<Rightarrow> pystr \<Rightarrow> pyval option \<Rightarrow> pyval option \<Rightarrow> item" where
  "listing i p m ms =
     \<lparr>item_id = i, price = Some (PStr p), price_str = None, is_match = m, match_status = ms\<rparr>"

definition payload :: "item list \<Rightarrow> eval_data" where
  "payload xs =
     \<lparr>individual_results_evaluation = Some xs, e_count_positive = None,
      e_count_negative = None, e_total_listings = None, e_match_percentage = None,
      overall_sufficiency = None, query_improvement_feedback = None\<rparr>"

definition env_of :: "(img_analysis \<times> query_data) call \<Rightarrow> (nat \<Rightarrow> scraped) \<Rightarrow> (nat \<Rightarrow> eval_output call) \<Rightarrow> env" where
  "env_of a f ev =
     \<lparr>analysis_and_query_crew = a,
      query_regeneration_crew = (\<lambda>i. Returns (Query_other (lit ''q''))),
      market_search = True,
      scraper_file = f,
      evaluation_crew = ev\<rparr>"

definition ok_analysis :: "(img_analysis \<times> query_data) call" where
  "ok_analysis =
     Returns (Img_dict [(lit ''description'', PStr (lit ''d''))], Query_other (lit ''q''))"

definition yes :: "pyval option" where
  "yes = Some (PBool True)"

definition no :: "pyval option" where
  "no = Some (PBool False)"

definition ok_img :: img_analysis where
  "ok_img = Img_dict [(lit ''description'', PStr (lit ''d''))]"

definition ok_query :: query_data where
  "ok_query = Query_other (lit ''q'')"

definition payload_pct :: "rat \<Rightarrow> eval_data" where
  "payload_pct p = (payload [])\<lparr>e_match_percentage := Some p\<rparr>"

definition zero_env :: env where
  "zero_env = env_of (Returns (ok_img, ok_query)) (\<lambda>i. File_items 1) (\<lambda>i. Returns (Eval_dict (payload [])))"

definition rising_env :: env where
  "rising_env = env_of (Returns (ok_img, ok_query)) (\<lambda>i. File_items 1)
     (\<lambda>i. Returns (Eval_dict (payload_pct (if i = 3 then 55 else 40))))"

definition tie_env :: env where
  "tie_env = env_of (Returns (ok_img, ok_query)) (\<lambda>i. if i = 2 then File_missing else File_items 1)
     (\<lambda>i. Returns (Eval_dict (payload_pct 60)))"

definition four_matches :: eval_data where
  "four_matches = payload (replicate 4 (listing None [] yes None))"

definition four_env :: env where
  "four_env = env_of (Returns (ok_img, ok_query)) (\<lambda>i. File_items 4) (\<lambda>i. Returns (Eval_dict four_matches))"


definition votes :: "nat \<Rightarrow> nat \<Rightarrow> elem list" where
  "votes p n = replicate p (Dict_elem (listing None [] yes None))
     @ replicate n (Dict_elem (listing None [] no None))"

definition spec_listings :: "item list" where
  "spec_listings =
     [listing None (lit ''120 '' @ [euro]) yes None,
      listing None (lit ''xyz'') no None,
      listing None (lit ''1.234,56 '' @ [euro]) yes None]"

definition with_id :: "pystr \<Rightarrow> item \<Rightarrow> item" where
  "with_id k it = it\<lparr>item_id := Some (PStr k)\<rparr>"

definition two_id_less :: "item list" where
  "two_id_less = [listing None (lit ''100'') yes None, listing None (lit ''300'') yes None]"

definition stop_env :: env where
  "stop_env = env_of (Returns (ok_img, ok_query)) (\<lambda>i. File_items 1)
     (\<lambda>i. Returns (Eval_dict ((payload_pct 60)\<lparr>overall_sufficiency :=
        (if i = 2 then sufficient else None)\<rparr>)))"


definition fallback_listings :: "item list" where
  "fallback_listings =
     [\<lparr>item_id = None, price = None, price_str = Some (PStr (lit ''50 '' @ [euro])),
       is_match = yes, match_status = None\<rparr>,
      \<lparr>item_id = None, price = Some (PStr []), price_str = Some (PStr (lit ''70'')),
       is_match = no, match_status = None\<rparr>,
      \<lparr>item_id = None, price = None, price_str = None,
       is_match = yes, match_status = None\<rparr>]"

definition rounding_listings :: "item list" where
  "rounding_listings =
     [listing None (lit ''10.004'') yes None, listing None (lit ''20.009'') no None]"

section \<open>Properties\<close>

subsection \<open>The price parser on the documented literals\<close>

lemma parse_price_120_euro: "parse_price (PStr (lit ''120 '' @ [euro])) = Inr (Fin 120)"
  by code_simp

lemma parse_price_199_VB:
  "parse_price (PStr (lit ''199 '' @ [euro] @ lit '' VB'')) = Inr (Fin 199)"
  by code_simp

lemma parse_price_german:
  "parse_price (PStr (lit ''1.234,56 '' @ [euro])) = Inr (fl (123456 / 100))"
  by code_simp

lemma parse_price_plain: "parse_price (PStr (lit ''1234'')) = Inr (Fin 1234)"
  by code_simp

lemma parse_price_rejects:
  "parse_price (PStr []) = Inl Invalid_price"
  "parse_price PNone = Inl Invalid_price"
  "parse_price (PInt 120) = Inl Invalid_price"
  "parse_price (PStr (lit ''abc'')) = Inl No_numeric_part"
  "parse_price (PStr (lit ''1.2.3'')) = Inl Could_not_parse"
  by code_simp+

text \<open>
  The match is the leftmost run of class characters, not the longest one: of
  \<open>"1 2345"\<close> the parser reads \<open>1\<close>.
\<close>

lemma parse_price_leftmost_run: "parse_price (PStr (lit ''1 2345'')) = Inr (Fin 1)"
  by code_simp

text \<open>
  Claim C1. The parser strips the euro sign, \<open>VB\<close> and non-breaking spaces, takes a run
  of digits, dots and commas and normalizes it: with both a dot and a comma present the
  dots are removed and the comma becomes the decimal point. The docstring's literal
  \<open>"1,234.56" -> 1234.56\<close> does not come out of that rule: the dot is removed and the
  comma becomes the decimal point, so the result is the float \<open>1.23456\<close>, which is not
  the float \<open>1234.56\<close>.
\<close>

theorem parse_price_us_literal:
  "parse_price (PStr (lit ''1,234.56'')) = Inr (fl (123456 / 100000))
   \<and> parse_price (PStr (lit ''1,234.56'')) \<noteq> Inr (fl (123456 / 100))"
  by code_simp

subsection \<open>Statistics over the accumulator\<close>

text \<open>
  Claim C5. Every pass recomputes the price statistics over the whole accumulator, and
  the claim takes every accumulated listing to count as a match. The accumulator admits
  a listing when \<open>is_match\<close> or \<open>match_status\<close> is truthy, the calculator counts a match
  only when \<open>is_match is True\<close>: a listing flagged by \<open>match_status\<close> alone is accumulated,
  its price enters \<open>price_statistics_all\<close>, and \<open>price_statistics_matches\<close> stays empty.
\<close>

theorem match_status_listing_not_in_matches:
  "map (\<lambda>r. (count_prices_parsed (price_statistics r),
              price_statistics_all (price_statistics r),
              price_statistics_matches (price_statistics r)))
     (history (result (run (env_of ok_analysis (\<lambda>i. File_items 1)
        (\<lambda>i. Returns (Eval_dict (payload
           [listing (Some (PStr (lit ''1''))) (lit ''120 '' @ [euro]) None yes])))))))
   = replicate 3 (1, Some \<lparr>stat_min = Fin 120, stat_max = Fin 120, stat_median = Fin 120\<rparr>, None)"
  by code_simp

subsection \<open>Fatal failure of the image analysis\<close>

text \<open>
  Claim C7. A failing image analysis ends the run at once with \<open>success = False\<close>,
  \<open>best_iteration = 0\<close>, no history and an empty \<open>best_result\<close>, the error message cut
  to 200 characters. The exception path cuts the message; the error-status path returns
  the \<open>error\<close> entry of the analysis as it is: an entry of 300 characters comes back
  with its 300 characters.
\<close>

theorem error_status_message_not_truncated:
  "run (env_of (Returns (Img_dict [(lit ''error'', PStr (replicate 300 120))], Query_other []))
         (\<lambda>i. File_missing) (\<lambda>i. Raises []))
   = \<lparr>result = \<lparr>success = False, error = Some (PStr (replicate 300 120)),
                 item_description = None, best_iteration = 0, best_result = Empty_dict,
                 history = []\<rparr>,
      calls = [Analysis_call]\<rparr>"
  by code_simp

subsection \<open>The refinement loop\<close>

lemma starts_append [simp]: "starts (a @ b) = starts a @ starts b"
  by (simp add: starts_def)

lemma starts_simps [simp]:
  "starts [] = []"
  "starts (Iteration_start i # cs) = i # starts cs"
  "starts (Analysis_call # cs) = starts cs"
  "starts (Regeneration_call i # cs) = starts cs"
  "starts (Scraper_call i q # cs) = starts cs"
  "starts (Evaluation_call i q # cs) = starts cs"
  by (simp_all add: starts_def)

lemma attempt_Inl: "attempt e i st = Inl st' \<Longrightarrow> same_store i st st'"
  by (auto simp: attempt_def query_step_def log_def Let_def same_store_def
      split: sum.splits if_splits call.splits scraped.splits)

lemma attempt_Inr: "attempt e i st = Inr (q, ed, st') \<Longrightarrow> same_store i st st'"
  by (auto simp: attempt_def query_step_def log_def Let_def same_store_def
      split: sum.splits if_splits call.splits scraped.splits)

lemma make_step_simps [simp]:
  "iteration (make_step i q ed acc) = i"
  "evaluation (make_step i q ed acc) = ed"
  "match_percentage (make_step i q ed acc) = (case e_match_percentage ed of Some p \<Rightarrow> p | None \<Rightarrow> 0)"
  "price_statistics (make_step i q ed acc) = calculate_from_evaluation (Some (map snd acc))"
  by (simp_all add: make_step_def Let_def)

lemma derived_make_step: "derived (make_step i q ed acc)"
  by (auto simp add: derived_def make_step_def Let_def split: option.splits)

lemma track_snoc: "track (hist @ [r]) = track_step (track hist) r"
  by (simp add: track_def)

lemma same_store_inv: "same_store i st st' \<Longrightarrow> loop_inv st \<Longrightarrow> loop_inv st'"
  using list_emb_append_mono [of "(=)" "map iteration (st_history st)" "starts (st_calls st)" "[]" "[i]"]
  by (auto simp: same_store_def loop_inv_def)

lemma complete_cases:
  "complete img i q ed st =
     (let step = make_step i q ed (merge_matches (all_unique_matches st) (current_matches_of ed)) in
      if overall_sufficiency ed = sufficient
      then Stop \<lparr>result = finalize True i (track_step (best_res st) step) (st_history st @ [step]) img,
                 calls = st_calls st\<rparr>
      else Next (st\<lparr>st_history := st_history st @ [step],
                    best_res := track_step (best_res st) step,
                    all_unique_matches := merge_matches (all_unique_matches st) (current_matches_of ed),
                    feedback := (case query_improvement_feedback ed of
                                   Some f \<Rightarrow> f | None \<Rightarrow> PStr (lit ''None''))\<rparr>))"
  by (simp add: complete_def Let_def)

lemma pass_Next:
  assumes "pass e img i st = Next st'" "loop_inv st"
  shows "loop_inv st' \<and> starts (st_calls st') = starts (st_calls st) @ [i]"
proof (cases "attempt e i st")
  case (Inl st1)
  with assms(1) have "st' = st1" by (simp add: pass_def)
  with Inl have "same_store i st st'" using attempt_Inl by blast
  with assms(2) show ?thesis using same_store_inv by (auto simp: same_store_def)
next
  case (Inr t)
  then obtain q ed st3 where t: "attempt e i st = Inr (q, ed, st3)" by (cases t) auto
  then have ss: "same_store i st st3" using attempt_Inr by blast
  from t assms(1) have c: "complete img i q ed st3 = Next st'" by (simp add: pass_def)
  define step where "step = make_step i q ed (merge_matches (all_unique_matches st3) (current_matches_of ed))"
  from c have ns: "overall_sufficiency ed \<noteq> sufficient"
    by (auto simp: complete_cases Let_def split: if_splits)
  with c have h: "st_history st' = st_history st3 @ [step]"
    and b: "best_res st' = track_step (best_res st3) step"
    and cs: "st_calls st' = st_calls st3"
    by (auto simp: complete_cases Let_def step_def)
  have d: "derived step" "iteration step = i" "evaluation step = ed"
    by (simp_all add: step_def derived_make_step)
  from assms(2) ss have "subseq (map iteration (st_history st) @ [i]) (starts (st_calls st) @ [i])"
    by (simp add: loop_inv_def)
  with assms(2) ss h b cs d ns show ?thesis
    by (auto simp: loop_inv_def same_store_def track_snoc)
qed

lemma pass_Stop:
  assumes "pass e img i st = Stop rr" "loop_inv st"
  shows "outcome (starts (st_calls st) @ i # is) rr"
proof (cases "attempt e i st")
  case (Inl st1)
  with assms(1) show ?thesis by (simp add: pass_def)
next
  case (Inr t)
  then obtain q ed st3 where t: "attempt e i st = Inr (q, ed, st3)" by (cases t) auto
  then have ss: "same_store i st st3" using attempt_Inr by blast
  from t assms(1) have c: "complete img i q ed st3 = Stop rr" by (simp add: pass_def)
  define step where "step = make_step i q ed (merge_matches (all_unique_matches st3) (current_matches_of ed))"
  from c have s: "overall_sufficiency ed = sufficient"
    by (auto simp: complete_cases Let_def split: if_splits)
  with c have rr: "rr = \<lparr>result = finalize True i (track_step (best_res st3) step) (st_history st3 @ [step]) img,
                 calls = st_calls st3\<rparr>"
    by (auto simp: complete_cases Let_def step_def)
  have d: "derived step" "iteration step = i" "evaluation step = ed"
    by (simp_all add: step_def derived_make_step)
  from assms(2) ss have "subseq (map iteration (st_history st) @ [i]) (starts (st_calls st) @ [i])"
    by (simp add: loop_inv_def)
  with assms(2) ss d s show ?thesis
    by (auto simp: rr outcome_def loop_inv_def same_store_def track_snoc finalize_def)
qed

lemma refine_outcome: "loop_inv st \<Longrightarrow> outcome (starts (st_calls st) @ is) (refine e img is st)"
proof (induction "is" arbitrary: st)
  case Nil
  then show ?case
    by (auto simp: outcome_def loop_inv_def finalize_def dest: in_set_butlastD)
next
  case (Cons i "is")
  show ?case
  proof (cases "pass e img i st")
    case (Next st')
    with Cons.prems have "loop_inv st'" "starts (st_calls st') = starts (st_calls st) @ [i]"
      using pass_Next by blast+
    with Cons.IH [of st'] Next show ?thesis by simp
  next
    case (Stop rr)
    with Cons.prems pass_Stop show ?thesis by simp
  qed
qed

lemma loop_inv_initial: "loop_inv (initial_state q)"
  by (simp add: loop_inv_def initial_state_def track_def)

lemma run_ok:
  assumes "analysis_and_query_crew e = Returns (img, q)" "\<not> has_error img"
  shows "outcome [1, 2, 3] (run e)"
proof -
  have "run e = refine e img [1, 2, 3] (initial_state q)"
    using assms by (simp add: run_def)
  moreover have "starts (st_calls (initial_state q)) = []"
    by (simp add: initial_state_def)
  ultimately show ?thesis
    using refine_outcome [OF loop_inv_initial, of q "[1, 2, 3]" e img] by simp
qed

lemma run_fatal:
  assumes "\<And>img q. analysis_and_query_crew e = Returns (img, q) \<Longrightarrow> has_error img"
  shows "run e = \<lparr>result = fatal (error (result (run e))), calls = [Analysis_call]\<rparr>"
  using assms by (auto simp: run_def fatal_def split: call.splits)

lemma run_cases:
  "(\<exists>err. run e = \<lparr>result = fatal err, calls = [Analysis_call]\<rparr>) \<or> outcome [1, 2, 3] (run e)"
proof (cases "\<exists>img q. analysis_and_query_crew e = Returns (img, q) \<and> \<not> has_error img")
  case True
  then show ?thesis using run_ok by blast
next
  case False
  then show ?thesis using run_fatal [of e] by metis
qed

lemma track_zero:
  "\<forall>r\<in>set hist. match_percentage r \<le> 0 \<Longrightarrow> track hist = Pct_only 0"
proof (induction hist rule: rev_induct)
  case Nil
  show ?case by (simp add: track_def)
next
  case (snoc r hist)
  then show ?case by (simp add: track_snoc track_step_def)
qed











text \<open>
  The tracker is replaced only by a strictly greater \<open>match_percentage\<close>, so a tie
  keeps the earlier iteration. In every run whose history has the percentages 40, 40,
  55 the best result is the third entry, which is iteration 3, and \<open>best_iteration\<close>
  is 3. In every run whose history has the percentages 60, 60 the best result is the
  first entry, and after an exhausted loop \<open>best_iteration\<close> is that entry's number.
\<close>

theorem best_iteration_strict:
  "(map match_percentage (history (result (run e))) = [40, 40, 55] \<longrightarrow>
      best_result (result (run e)) = Step (history (result (run e)) ! 2)
      \<and> iteration (history (result (run e)) ! 2) = 3
      \<and> best_iteration (result (run e)) = 3)
   \<and> (map match_percentage (history (result (run e))) = [60, 60] \<longrightarrow>
      best_result (result (run e)) = Step (history (result (run e)) ! 0)
      \<and> (\<not> success (result (run e)) \<longrightarrow>
           best_iteration (result (run e)) = iteration (history (result (run e)) ! 0)))"
proof (intro conjI impI)
  assume h: "map match_percentage (history (result (run e))) = [40, 40, 55]"
  then obtain a b c where abc: "history (result (run e)) = [a, b, c]"
    "match_percentage a = 40" "match_percentage b = 40" "match_percentage c = 55"
    by (auto simp: map_eq_Cons_conv)
  with run_cases [of e] have o: "outcome [1, 2, 3] (run e)" by (auto simp: fatal_def)
  from o abc show "best_result (result (run e)) = Step (history (result (run e)) ! 2)"
    by (simp add: outcome_def track_def track_step_def)
  from o have s: "subseq (map iteration [a, b, c]) (starts (calls (run e)))"
    and p: "prefix (starts (calls (run e))) [1, 2, 3]"
    by (simp_all add: outcome_def abc)
  from s have "3 \<le> length (starts (calls (run e)))"
    using list_emb_length [OF s] by simp
  moreover from p have "length (starts (calls (run e))) \<le> 3"
    using prefix_length_le by fastforce
  ultimately have l3: "length (starts (calls (run e))) = 3" by simp
  from p obtain zs where z: "[1, 2, 3] = starts (calls (run e)) @ zs"
    by (auto simp: prefix_def)
  from arg_cong [OF z, of length] l3 have "zs = []" by simp
  with z have "starts (calls (run e)) = [1, 2, 3]" by simp
  have "map iteration [a, b, c] = starts (calls (run e))"
    by (rule subseq_same_length [OF s]) (simp add: l3)
  with \<open>starts (calls (run e)) = [1, 2, 3]\<close> have "iteration c = 3" by simp
  then show i3: "iteration (history (result (run e)) ! 2) = 3" by (simp add: abc)
  from o abc i3 show "best_iteration (result (run e)) = 3"
    by (cases "success (result (run e))") (simp_all add: outcome_def track_def track_step_def)
next
  assume h: "map match_percentage (history (result (run e))) = [60, 60]"
  then obtain a b where ab: "history (result (run e)) = [a, b]"
    "match_percentage a = 60" "match_percentage b = 60"
    by (auto simp: map_eq_Cons_conv)
  with run_cases [of e] have o: "outcome [1, 2, 3] (run e)" by (auto simp: fatal_def)
  from o ab show "best_result (result (run e)) = Step (history (result (run e)) ! 0)"
    by (simp add: outcome_def track_def track_step_def)
  assume "\<not> success (result (run e))"
  with o ab show "best_iteration (result (run e)) = iteration (history (result (run e)) ! 0)"
    by (simp add: outcome_def track_def track_step_def)
qed

theorem best_iteration_strict_witness:
  "map match_percentage (history (result (run rising_env))) = [40, 40, 55]
   \<and> best_result (result (run rising_env)) = Step (history (result (run rising_env)) ! 2)
   \<and> best_iteration (result (run rising_env)) = 3
   \<and> map match_percentage (history (result (run tie_env))) = [60, 60]
   \<and> \<not> success (result (run tie_env))
   \<and> best_result (result (run tie_env)) = Step (history (result (run tie_env)) ! 0)
   \<and> best_iteration (result (run tie_env)) = iteration (history (result (run tie_env)) ! 0)"
proof -
  have a: "map match_percentage (history (result (run rising_env))) = [40, 40, 55]" by code_simp
  have b: "map match_percentage (history (result (run tie_env))) = [60, 60]" by code_simp
  have c: "\<not> success (result (run tie_env))" by code_simp
  from best_iteration_strict [of rising_env] best_iteration_strict [of tie_env] a b c
  show ?thesis by blast
qed

text \<open>
  Claim C6. Ties keep the earlier iteration: with the percentages 60, 60 the best
  iteration is the first. The tracker does keep the first entry, but a run that stops
  because its second 60 percent pass reports \<open>sufficient\<close> returns the stopping index
  as \<open>best_iteration\<close>: \<open>best_result\<close> is the entry of iteration 1 and
  \<open>best_iteration\<close> is 2, where the return after the loop takes the number from the
  tracker.
\<close>

theorem sufficient_stop_reports_stopping_index:
  "map match_percentage (history (result (run stop_env))) = [60, 60]
   \<and> map iteration (history (result (run stop_env))) = [1, 2]
   \<and> success (result (run stop_env))
   \<and> best_result (result (run stop_env)) = Step (hd (history (result (run stop_env))))
   \<and> best_iteration (result (run stop_env)) = 2"
  by code_simp

text \<open>
  Claim C9. The tracker starts as \<open>{"match_percentage": 0}\<close>, without an iteration
  number, and is replaced only by a strictly greater percentage. So when the loop is
  exhausted and every completed iteration has percentage 0 (the value an omitted
  \<open>match_percentage\<close> defaults to), the result has \<open>best_iteration = 0\<close> and
  \<open>best_result = {"match_percentage": 0}\<close>, whatever the history holds.
\<close>

theorem zero_percent_keeps_initial_best:
  assumes "analysis_and_query_crew e = Returns (img, q)" "\<not> has_error img"
    and "\<forall>r\<in>set (history (result (run e))). match_percentage r = 0"
    and "\<not> success (result (run e))"
  shows "best_iteration (result (run e)) = 0 \<and> best_result (result (run e)) = Pct_only 0"
proof -
  from assms(1,2) have o: "outcome [1, 2, 3] (run e)" by (rule run_ok)
  from assms(3) have "track (history (result (run e))) = Pct_only 0"
    by (intro track_zero) simp
  with o assms(4) show ?thesis by (simp add: outcome_def)
qed

theorem zero_percent_keeps_initial_best_witness:
  "length (history (result (run zero_env))) = 3
   \<and> best_iteration (result (run zero_env)) = 0
   \<and> best_result (result (run zero_env)) = Pct_only 0"
proof -
  have a: "analysis_and_query_crew zero_env = Returns (ok_img, ok_query)"
    by (simp add: zero_env_def env_of_def)
  have b: "\<not> has_error ok_img" by code_simp
  have c: "\<forall>r\<in>set (history (result (run zero_env))). match_percentage r = 0" by code_simp
  have d: "\<not> success (result (run zero_env))" by code_simp
  have e: "length (history (result (run zero_env))) = 3" by code_simp
  from zero_percent_keeps_initial_best [OF a b c d] e show ?thesis by simp
qed

text \<open>
  Claim C4, as amended. Every history entry is derived from its judgment payload:
  \<open>count_positive\<close>, \<open>count_negative\<close> and \<open>total_listings\<close> are the reported values
  and, where absent, are recounted from the \<open>is_match\<close> flags; \<open>match_percentage\<close> is the
  reported value and, where absent, 0. The run stops with success exactly when the
  payload of its last entry reports \<open>overall_sufficiency = "sufficient"\<close>; no earlier
  entry does.
\<close>

theorem reported_or_recounted_metrics:
  "(\<forall>r\<in>set (history (result (run e))). derived r)
   \<and> (\<forall>r\<in>set (butlast (history (result (run e)))). overall_sufficiency (evaluation r) \<noteq> sufficient)
   \<and> (success (result (run e)) \<longleftrightarrow>
        history (result (run e)) \<noteq> []
        \<and> overall_sufficiency (evaluation (last (history (result (run e))))) = sufficient)"
  using run_cases [of e]
proof
  assume "\<exists>err. run e = \<lparr>result = fatal err, calls = [Analysis_call]\<rparr>"
  then show ?thesis by (auto simp: fatal_def)
next
  assume o: "outcome [1, 2, 3] (run e)"
  show ?thesis
  proof (cases "success (result (run e))")
    case True
    with o show ?thesis by (simp add: outcome_def)
  next
    case False
    with o have "\<forall>r\<in>set (history (result (run e))). overall_sufficiency (evaluation r) \<noteq> sufficient"
      by (simp add: outcome_def)
    then have "history (result (run e)) = [] \<or>
        overall_sufficiency (evaluation (last (history (result (run e))))) \<noteq> sufficient"
      using last_in_set by blast
    with o False show ?thesis by (auto simp: outcome_def)
  qed
qed

theorem reported_or_recounted_metrics_witness:
  "derived (hd (history (result (run four_env))))
   \<and> match_percentage (hd (history (result (run four_env)))) = 0
   \<and> count_positive (hd (history (result (run four_env)))) = 4"
proof -
  have a: "history (result (run four_env)) \<noteq> []" by code_simp
  have b: "match_percentage (hd (history (result (run four_env)))) = 0
     \<and> count_positive (hd (history (result (run four_env)))) = 4" by code_simp
  from a have "hd (history (result (run four_env))) \<in> set (history (result (run four_env)))"
    by simp
  with reported_or_recounted_metrics [of four_env] b show ?thesis by blast
qed

text \<open>
  Claim C4 as stated fails for the percentage and for the verdict: a payload of four
  matching listings and nothing else is recorded with \<open>match_percentage = 0\<close> in each
  of three iterations, and the run does not stop, although the counts are recounted as
  4 of 4, which the sufficiency rule rates 100 percent and sufficient.
\<close>

theorem missing_percentage_not_recomputed:
  "map match_percentage (history (result (run four_env))) = [0, 0, 0]
   \<and> map count_positive (history (result (run four_env))) = [4, 4, 4]
   \<and> map total_listings (history (result (run four_env))) = [4, 4, 4]
   \<and> \<not> success (result (run four_env))
   \<and> m_match_percentage (metrics_of (map Dict_elem (results_of four_matches))) = Fin 100
   \<and> m_overall_sufficiency (metrics_of (map Dict_elem (results_of four_matches))) = lit ''sufficient''"
  by code_simp

subsection \<open>The statistics calculator\<close>

lemma collect_fold:
  "foldl collect_step (a, b, c) items =
     (a @ parsed_prices items, b @ parsed_prices (filter matched items),
      c + length (parsed_prices items))"
  by (induction items arbitrary: a b c)
     (auto simp: collect_step_def parsed_prices_def matched_def split: sum.splits)

lemma length_parsed_prices: "length (parsed_prices items) = length (filter parses items)"
  by (induction items) (auto simp: parsed_prices_def parses_def split: sum.splits)

lemma parsed_prices_skip:
  "\<not> parses it \<Longrightarrow> parsed_prices (xs @ it # ys) = parsed_prices (xs @ ys)"
  by (auto simp: parsed_prices_def parses_def split: sum.splits)

lemma calculate_fields:
  "calculate_from_evaluation (Some items) =
     \<lparr>count_prices_parsed = length (filter parses items),
      count_listings = length items,
      price_statistics_all = summary (parsed_prices items),
      price_statistics_matches = summary (parsed_prices (filter matched items))\<rparr>"
  by (simp add: calculate_from_evaluation_def collect_def collect_fold length_parsed_prices)

lemma median_nonempty:
  "ps \<noteq> [] \<Longrightarrow> median ps = Some (if odd (length ps) then sort ps ! (length ps div 2)
      else fhalf (fadd (sort ps ! (length ps div 2 - 1)) (sort ps ! (length ps div 2))))"
proof -
  assume "ps \<noteq> []"
  then have "sort ps \<noteq> []" by (metis length_0_conv length_sort)
  then show ?thesis by (auto simp: median_def Let_def odd_iff_mod_2_eq_one)
qed

lemma summary_nonempty:
  assumes "ps \<noteq> []"
  shows "summary ps = Some \<lparr>stat_min = round2 (Min (set ps)), stat_max = round2 (Max (set ps)),
     stat_median = round2 (if odd (length ps) then sort ps ! (length ps div 2)
        else fhalf (fadd (sort ps ! (length ps div 2 - 1)) (sort ps ! (length ps div 2))))\<rparr>"
proof -
  from assms obtain p qs where ps: "ps = p # qs" by (cases ps) auto
  have "fold min qs p = Min (set ps)" "fold max qs p = Max (set ps)"
    unfolding ps by (rule Min.set_eq_fold [symmetric], rule Max.set_eq_fold [symmetric])
  with median_nonempty [OF assms] show ?thesis
    by (simp add: summary_def ps)
qed

lemma summary_empty: "summary ps = None \<longleftrightarrow> ps = []"
  using summary_nonempty [of ps] by (cases ps) (simp_all add: summary_def)

lemma spec_example:
  "calculate_from_evaluation (Some spec_listings) =
     \<lparr>count_prices_parsed = 2, count_listings = 3,
      price_statistics_all =
        Some \<lparr>stat_min = Fin 120, stat_max = fl (123456 / 100), stat_median = fl (67728 / 100)\<rparr>,
      price_statistics_matches =
        Some \<lparr>stat_min = Fin 120, stat_max = fl (123456 / 100), stat_median = fl (67728 / 100)\<rparr>\<rparr>"
  by code_simp

lemma round_half_even_close: "\<bar>x - of_int (round_half_even x)\<bar> \<le> 1 / 2"
proof -
  have "of_int \<lfloor>x\<rfloor> \<le> x" "x < of_int \<lfloor>x\<rfloor> + 1" by linarith+
  then show ?thesis by (auto simp: round_half_even_def Let_def)
qed

lemma round2_rounds:
  "round2 (Fin a) = fl (of_int (round_half_even (a * 100)) / 100)
   \<and> \<bar>a * 100 - of_int (round_half_even (a * 100))\<bar> \<le> 1 / 2"
  using round_half_even_close [of "a * 100"] by simp

lemma price_field_cases:
  "(truthy_opt (price it) \<longrightarrow> Some (price_field it) = price it)
   \<and> (\<not> truthy_opt (price it) \<and> truthy_opt (price_str it) \<longrightarrow> Some (price_field it) = price_str it)
   \<and> (\<not> truthy_opt (price it) \<and> \<not> truthy_opt (price_str it) \<longrightarrow> price_field it = PStr [])
   \<and> (parses it \<longleftrightarrow> (\<exists>p. parse_price (PStr (py_str (price_field it))) = Inr p))"
  by (auto simp: price_field_def truthy_opt_def parses_def item_price_def split: option.splits sum.splits)

lemma fallback_example:
  "calculate_from_evaluation (Some fallback_listings) =
     \<lparr>count_prices_parsed = 2, count_listings = 3,
      price_statistics_all = Some \<lparr>stat_min = Fin 50, stat_max = Fin 70, stat_median = Fin 60\<rparr>,
      price_statistics_matches = Some \<lparr>stat_min = Fin 50, stat_max = Fin 50, stat_median = Fin 50\<rparr>\<rparr>"
  by code_simp

lemma rounding_example:
  "calculate_from_evaluation (Some rounding_listings) =
     \<lparr>count_prices_parsed = 2, count_listings = 2,
      price_statistics_all =
        Some \<lparr>stat_min = Fin 10, stat_max = fl (2001 / 100), stat_median = fl (1501 / 100)\<rparr>,
      price_statistics_matches =
        Some \<lparr>stat_min = Fin 10, stat_max = Fin 10, stat_median = Fin 10\<rparr>\<rparr>"
  "parsed_prices rounding_listings = [fl (10004 / 1000), fl (20009 / 1000)]"
  "fl (10004 / 1000) \<noteq> Fin 10"
  by code_simp+

text \<open>
  Claim C3. For every list of listings: \<open>count_listings\<close> is the size of the list and
  \<open>count_prices_parsed\<close> the number of listings whose price field parses; a listing
  whose price does not parse adds nothing to the collected prices. The price field is
  \<open>price\<close> when that is truthy, else \<open>price_str\<close> when that is truthy, else the empty
  string. \<open>price_statistics_all\<close> summarizes the parsed prices and
  \<open>price_statistics_matches\<close> those of the listings with \<open>is_match is True\<close>; a summary
  is absent exactly for an empty collection and otherwise holds the minimum, the maximum
  and the median (for an even count the mean of the two middle values), each rounded
  to 2 decimals: to the float of the nearest hundredth. Listings priced only through
  \<open>price_str\<close> are read; prices 10.004 and 20.009 give \<open>{min: 10.0, max: 20.01,
  median: 15.01}\<close>. On the three listings of the spec the result is 2 parsed prices, 3
  listings and \<open>{min: 120.0, max: 1234.56, median: 677.28}\<close> in both summaries.
\<close>

theorem statistics_of_listings:
  "count_listings (calculate_from_evaluation (Some items)) = length items
   \<and> count_prices_parsed (calculate_from_evaluation (Some items)) = length (filter parses items)
   \<and> price_statistics_all (calculate_from_evaluation (Some items)) = summary (parsed_prices items)
   \<and> price_statistics_matches (calculate_from_evaluation (Some items))
       = summary (parsed_prices (filter matched items))
   \<and> (\<not> parses it \<longrightarrow> parsed_prices (xs @ it # ys) = parsed_prices (xs @ ys))
   \<and> (summary ps = None \<longleftrightarrow> ps = [])
   \<and> (ps \<noteq> [] \<longrightarrow> summary ps =
         Some \<lparr>stat_min = round2 (Min (set ps)), stat_max = round2 (Max (set ps)),
               stat_median = round2 (if odd (length ps) then sort ps ! (length ps div 2)
                 else fhalf (fadd (sort ps ! (length ps div 2 - 1)) (sort ps ! (length ps div 2))))\<rparr>)
   \<and> (truthy_opt (price it) \<longrightarrow> Some (price_field it) = price it)
   \<and> (\<not> truthy_opt (price it) \<and> truthy_opt (price_str it) \<longrightarrow>
         Some (price_field it) = price_str it)
   \<and> (\<not> truthy_opt (price it) \<and> \<not> truthy_opt (price_str it) \<longrightarrow> price_field it = PStr [])
   \<and> (parses it \<longleftrightarrow> (\<exists>p. parse_price (PStr (py_str (price_field it))) = Inr p))
   \<and> round2 (Fin a) = fl (of_int (round_half_even (a * 100)) / 100)
   \<and> \<bar>a * 100 - of_int (round_half_even (a * 100))\<bar> \<le> 1 / 2
   \<and> calculate_from_evaluation (Some fallback_listings) =
       \<lparr>count_prices_parsed = 2, count_listings = 3,
        price_statistics_all =
          Some \<lparr>stat_min = Fin 50, stat_max = Fin 70, stat_median = Fin 60\<rparr>,
        price_statistics_matches =
          Some \<lparr>stat_min = Fin 50, stat_max = Fin 50, stat_median = Fin 50\<rparr>\<rparr>
   \<and> parsed_prices rounding_listings = [fl (10004 / 1000), fl (20009 / 1000)]
   \<and> fl (10004 / 1000) \<noteq> Fin 10
   \<and> calculate_from_evaluation (Some rounding_listings) =
       \<lparr>count_prices_parsed = 2, count_listings = 2,
        price_statistics_all =
          Some \<lparr>stat_min = Fin 10, stat_max = fl (2001 / 100), stat_median = fl (1501 / 100)\<rparr>,
        price_statistics_matches =
          Some \<lparr>stat_min = Fin 10, stat_max = Fin 10, stat_median = Fin 10\<rparr>\<rparr>
   \<and> calculate_from_evaluation (Some spec_listings) =
       \<lparr>count_prices_parsed = 2, count_listings = 3,
        price_statistics_all =
          Some \<lparr>stat_min = Fin 120, stat_max = fl (123456 / 100), stat_median = fl (67728 / 100)\<rparr>,
        price_statistics_matches =
          Some \<lparr>stat_min = Fin 120, stat_max = fl (123456 / 100), stat_median = fl (67728 / 100)\<rparr>\<rparr>"
proof -
  have g: "count_listings (calculate_from_evaluation (Some items)) = length items
     \<and> count_prices_parsed (calculate_from_evaluation (Some items)) = length (filter parses items)
     \<and> price_statistics_all (calculate_from_evaluation (Some items)) = summary (parsed_prices items)
     \<and> price_statistics_matches (calculate_from_evaluation (Some items))
         = summary (parsed_prices (filter matched items))"
    by (simp add: calculate_fields)
  from g spec_example fallback_example rounding_example summary_nonempty [of ps]
    summary_empty [of ps] parsed_prices_skip [of it xs ys] price_field_cases [of it]
    round2_rounds [of a]
  show ?thesis by blast
qed

theorem statistics_of_listings_witness:
  "\<not> parses (listing None (lit ''xyz'') no None)
   \<and> parsed_prices [listing None (lit ''xyz'') no None] = []
   \<and> summary [Fin 2, Fin 4] = Some \<lparr>stat_min = Fin 2, stat_max = Fin 4, stat_median = Fin 3\<rparr>
   \<and> price_field (listing None (lit ''xyz'') no None) = PStr (lit ''xyz'')
   \<and> price_field (fallback_listings ! 0) = PStr (lit ''50 '' @ [euro])
   \<and> price_field (fallback_listings ! 1) = PStr (lit ''70'')
   \<and> price_field (fallback_listings ! 2) = PStr []"
proof -
  have a: "\<not> parses (listing None (lit ''xyz'') no None)" by code_simp
  have b: "summary [Fin 2, Fin 4] = Some \<lparr>stat_min = Fin 2, stat_max = Fin 4, stat_median = Fin 3\<rparr>"
    by code_simp
  have c: "[Fin 2, Fin 4] \<noteq> []" by simp
  have d: "truthy_opt (price (listing None (lit ''xyz'') no None))
     \<and> price (listing None (lit ''xyz'') no None) = Some (PStr (lit ''xyz''))" by code_simp
  have e: "\<not> truthy_opt (price (fallback_listings ! 0)) \<and> truthy_opt (price_str (fallback_listings ! 0))
     \<and> price_str (fallback_listings ! 0) = Some (PStr (lit ''50 '' @ [euro]))" by code_simp
  have f: "\<not> truthy_opt (price (fallback_listings ! 1)) \<and> truthy_opt (price_str (fallback_listings ! 1))
     \<and> price_str (fallback_listings ! 1) = Some (PStr (lit ''70''))" by code_simp
  have g: "\<not> truthy_opt (price (fallback_listings ! 2)) \<and> \<not> truthy_opt (price_str (fallback_listings ! 2))"
    by code_simp
  note T = statistics_of_listings [where items = "[]" and it = "listing None (lit ''xyz'') no None"
      and xs = "[]" and ys = "[]" and ps = "[Fin 2, Fin 4]"]
  from T a have "parsed_prices ([] @ listing None (lit ''xyz'') no None # [])
      = parsed_prices ([] @ [])" by blast
  then have 0: "parsed_prices [listing None (lit ''xyz'') no None] = []"
    by (simp add: parsed_prices_def)
  from T d have "Some (price_field (listing None (lit ''xyz'') no None))
      = price (listing None (lit ''xyz'') no None)" by blast
  with d have 1: "price_field (listing None (lit ''xyz'') no None) = PStr (lit ''xyz'')" by simp
  from statistics_of_listings [where it = "fallback_listings ! 0"] e
  have "Some (price_field (fallback_listings ! 0)) = price_str (fallback_listings ! 0)" by blast
  with e have 2: "price_field (fallback_listings ! 0) = PStr (lit ''50 '' @ [euro])" by simp
  from statistics_of_listings [where it = "fallback_listings ! 1"] f
  have "Some (price_field (fallback_listings ! 1)) = price_str (fallback_listings ! 1)" by blast
  with f have 3: "price_field (fallback_listings ! 1) = PStr (lit ''70'')" by simp
  from statistics_of_listings [where it = "fallback_listings ! 2"] g
  have 4: "price_field (fallback_listings ! 2) = PStr []" by blast
  from a b 0 1 2 3 4 show ?thesis by simp
qed

subsection \<open>The sufficiency rule\<close>

lemma lit_sufficient: "lit ''sufficient'' \<noteq> lit ''not sufficient''"
  by (simp add: lit_def)

lemma sufficiency_examples:
  "metrics_of (votes 5 3) = \<lparr>m_count_positive = 5, m_count_negative = 3,
      m_match_percentage = Fin (125 / 2), m_total_listings = 8,
      m_overall_sufficiency = lit ''sufficient''\<rparr>"
  "metrics_of (votes 2 0) = \<lparr>m_count_positive = 2, m_count_negative = 0,
      m_match_percentage = Fin 100, m_total_listings = 2,
      m_overall_sufficiency = lit ''not sufficient''\<rparr>"
  "metrics_of (votes 3 7) = \<lparr>m_count_positive = 3, m_count_negative = 7,
      m_match_percentage = Fin 30, m_total_listings = 10,
      m_overall_sufficiency = lit ''not sufficient''\<rparr>"
  by code_simp+

lemma rounding_examples:
  "match_pct 1 3 = fl (3333 / 100)"
  "match_pct 1 3 \<noteq> fl (nearest_double (1 / 3) * 100)"
  "match_pct 9999 20000 = fl (4999 / 100)"
  by code_simp+

lemma metrics_general:
  "(items \<noteq> [] \<longrightarrow> metrics_run json_loads (Eval_value (Json_list items)) = Inr (metrics_of items))
   \<and> m_count_positive (metrics_of items) = length (filter is_positive items)
   \<and> m_total_listings (metrics_of items) = length items
   \<and> m_match_percentage (metrics_of items)
       = match_pct (m_count_positive (metrics_of items)) (m_total_listings (metrics_of items))
   \<and> (0 < n \<longrightarrow> match_pct p n = round2 (fl (nearest_double (of_nat p / of_nat n) * 100)))
   \<and> match_pct p 0 = Fin 0
   \<and> (m_overall_sufficiency (metrics_of items) = lit ''sufficient'' \<longleftrightarrow>
        Fin 50 \<le> m_match_percentage (metrics_of items) \<and> 3 \<le> m_count_positive (metrics_of items))
   \<and> (m_overall_sufficiency (metrics_of items) \<noteq> lit ''sufficient'' \<longrightarrow>
        m_overall_sufficiency (metrics_of items) = lit ''not sufficient'')"
  using lit_sufficient
  by (simp add: metrics_run_def metrics_of_def match_pct_def Let_def)

text \<open>
  Claim C2. For every non-empty list of evaluated items the tool returns the metrics
  of the list: \<open>match_percentage\<close> is \<open>positive / total * 100\<close> rounded to 2 decimals,
  that is to the float of the nearest hundredth (0.0 for a total of 0), and the verdict
  is \<open>sufficient\<close> exactly when the percentage is at least 50 and there are at least 3
  positives. 1 of 3 is 33.33 percent, not the unrounded quotient. 5 of 8 is 62.5
  percent and sufficient; 2 of 2 is 100 percent and not sufficient; 3 of 10 is 30
  percent and not sufficient.
\<close>

theorem sufficiency_rule:
  "(items \<noteq> [] \<longrightarrow> metrics_run json_loads (Eval_value (Json_list items)) = Inr (metrics_of items))
   \<and> m_count_positive (metrics_of items) = length (filter is_positive items)
   \<and> m_total_listings (metrics_of items) = length items
   \<and> m_match_percentage (metrics_of items)
       = match_pct (m_count_positive (metrics_of items)) (m_total_listings (metrics_of items))
   \<and> (0 < n \<longrightarrow> match_pct p n = round2 (fl (nearest_double (of_nat p / of_nat n) * 100)))
   \<and> match_pct p 0 = Fin 0
   \<and> (m_overall_sufficiency (metrics_of items) = lit ''sufficient'' \<longleftrightarrow>
        Fin 50 \<le> m_match_percentage (metrics_of items) \<and> 3 \<le> m_count_positive (metrics_of items))
   \<and> (m_overall_sufficiency (metrics_of items) \<noteq> lit ''sufficient'' \<longrightarrow>
        m_overall_sufficiency (metrics_of items) = lit ''not sufficient'')
   \<and> round2 (Fin a) = fl (of_int (round_half_even (a * 100)) / 100)
   \<and> \<bar>a * 100 - of_int (round_half_even (a * 100))\<bar> \<le> 1 / 2
   \<and> match_pct 1 3 = fl (3333 / 100)
   \<and> match_pct 1 3 \<noteq> fl (nearest_double (1 / 3) * 100)
   \<and> match_pct 9999 20000 = fl (4999 / 100)
   \<and> metrics_of (votes 5 3) = \<lparr>m_count_positive = 5, m_count_negative = 3,
        m_match_percentage = Fin (125 / 2), m_total_listings = 8,
        m_overall_sufficiency = lit ''sufficient''\<rparr>
   \<and> metrics_of (votes 2 0) = \<lparr>m_count_positive = 2, m_count_negative = 0,
        m_match_percentage = Fin 100, m_total_listings = 2,
        m_overall_sufficiency = lit ''not sufficient''\<rparr>
   \<and> metrics_of (votes 3 7) = \<lparr>m_count_positive = 3, m_count_negative = 7,
        m_match_percentage = Fin 30, m_total_listings = 10,
        m_overall_sufficiency = lit ''not sufficient''\<rparr>"
  using metrics_general [of items json_loads n p] sufficiency_examples rounding_examples
    round2_rounds [of a]
  by simp

theorem sufficiency_rule_witness:
  "votes 5 3 \<noteq> []
   \<and> metrics_run (\<lambda>s. None) (Eval_value (Json_list (votes 5 3))) = Inr (metrics_of (votes 5 3))
   \<and> match_pct 5 8 = Fin (125 / 2)
   \<and> match_pct 1 3 = fl (3333 / 100)
   \<and> m_overall_sufficiency (metrics_of (votes 5 3)) = lit ''sufficient''"
proof -
  have a: "votes 5 3 \<noteq> []" by code_simp
  have b: "match_pct 5 8 = Fin (125 / 2)" by code_simp
  have c: "m_overall_sufficiency (metrics_of (votes 5 3)) = lit ''sufficient''" by code_simp
  from sufficiency_rule [of "votes 5 3" "\<lambda>s. None" 8 5] a b c show ?thesis by simp
qed

subsection \<open>The match accumulator\<close>

lemma merge_matches_snoc:
  "merge_matches acc (ms @ [m]) = AList.update (py_str_opt (item_id m)) m (merge_matches acc ms)"
  by (simp add: merge_matches_def)

lemma merge_distinct:
  "distinct (map fst acc) \<Longrightarrow> distinct (map fst (merge_matches acc ms))"
  by (induction ms rule: rev_induct) (simp_all add: merge_matches_snoc distinct_update, simp add: merge_matches_def)

lemma update_keyed: "keyed al \<Longrightarrow> keyed (AList.update (py_str_opt (item_id m)) m al)"
  by (induction al) (auto simp: keyed_def)

lemma merge_keyed: "keyed acc \<Longrightarrow> keyed (merge_matches acc ms)"
  by (induction ms rule: rev_induct) (simp_all add: merge_matches_snoc update_keyed, simp add: merge_matches_def)

lemma fold_merge_inv:
  "distinct (map fst acc) \<Longrightarrow> keyed acc \<Longrightarrow>
     distinct (map fst (foldl merge_matches acc batches)) \<and> keyed (foldl merge_matches acc batches)"
  by (induction batches arbitrary: acc) (simp_all add: merge_distinct merge_keyed)

lemma one_key: "distinct ys \<Longrightarrow> \<forall>y\<in>set ys. y = c \<Longrightarrow> length ys \<le> 1"
  by (cases ys; cases "tl ys") auto

lemma at_most_one_id_less:
  assumes "distinct (map fst acc)" "keyed acc"
  shows "length (filter id_less acc) \<le> 1"
proof -
  have "distinct (map fst (filter id_less acc))"
    using assms(1) by (rule distinct_map_filter)
  moreover have "\<forall>k\<in>set (map fst (filter id_less acc)). k = lit ''None''"
    using assms(2) by (auto simp: keyed_def id_less_def list_all_iff py_str_opt_def)
  ultimately have "length (map fst (filter id_less acc)) \<le> 1" by (rule one_key)
  then show ?thesis by simp
qed

lemma id_less_statistics:
  "calculate_from_evaluation (Some (map snd (merge_matches [] two_id_less))) =
     \<lparr>count_prices_parsed = 1, count_listings = 1,
      price_statistics_all = Some \<lparr>stat_min = Fin 300, stat_max = Fin 300, stat_median = Fin 300\<rparr>,
      price_statistics_matches = Some \<lparr>stat_min = Fin 300, stat_max = Fin 300, stat_median = Fin 300\<rparr>\<rparr>"
  "calculate_from_evaluation (Some (map snd (merge_matches []
       (map2 with_id [lit ''a'', lit ''b''] two_id_less)))) =
     \<lparr>count_prices_parsed = 2, count_listings = 2,
      price_statistics_all = Some \<lparr>stat_min = Fin 100, stat_max = Fin 300, stat_median = Fin 200\<rparr>,
      price_statistics_matches = Some \<lparr>stat_min = Fin 100, stat_max = Fin 300, stat_median = Fin 200\<rparr>\<rparr>"
  by code_simp+

text \<open>
  Claim C10. The accumulator's key is the string form of the listing's id, and a
  listing without an id gets the key \<open>"None"\<close>. A merge keeps the keys distinct; after
  any sequence of merges from the empty accumulator the keys are distinct and at most
  one entry without an id is held; a match without an id that is merged last is the
  entry under \<open>"None"\<close>. This changes the statistics: two matches without ids, priced
  100 and 300, leave one listing at 300, where the same two with ids give two listings
  with median 200.
\<close>

theorem accumulator_keys:
  "py_str_opt None = lit ''None''
   \<and> (distinct (map fst acc) \<longrightarrow> distinct (map fst (merge_matches acc ms)))
   \<and> distinct (map fst (foldl merge_matches [] batches))
   \<and> length (filter id_less (foldl merge_matches [] batches)) \<le> 1
   \<and> (item_id m = None \<longrightarrow> map_of (merge_matches acc (ms @ [m])) (lit ''None'') = Some m)
   \<and> calculate_from_evaluation (Some (map snd (merge_matches [] two_id_less))) =
       \<lparr>count_prices_parsed = 1, count_listings = 1,
        price_statistics_all = Some \<lparr>stat_min = Fin 300, stat_max = Fin 300, stat_median = Fin 300\<rparr>,
        price_statistics_matches = Some \<lparr>stat_min = Fin 300, stat_max = Fin 300, stat_median = Fin 300\<rparr>\<rparr>
   \<and> calculate_from_evaluation (Some (map snd (merge_matches []
         (map2 with_id [lit ''a'', lit ''b''] two_id_less)))) =
       \<lparr>count_prices_parsed = 2, count_listings = 2,
        price_statistics_all = Some \<lparr>stat_min = Fin 100, stat_max = Fin 300, stat_median = Fin 200\<rparr>,
        price_statistics_matches = Some \<lparr>stat_min = Fin 100, stat_max = Fin 300, stat_median = Fin 200\<rparr>\<rparr>"
proof -
  have i: "distinct (map fst (foldl merge_matches [] batches)) \<and> keyed (foldl merge_matches [] batches)"
    by (rule fold_merge_inv) (simp_all add: keyed_def)
  have l: "item_id m = None \<longrightarrow> map_of (merge_matches acc (ms @ [m])) (lit ''None'') = Some m"
    by (simp add: merge_matches_snoc update_conv' py_str_opt_def)
  from i l at_most_one_id_less [of "foldl merge_matches [] batches"] merge_distinct [of acc ms]
    id_less_statistics
  show ?thesis by (simp add: py_str_opt_def)
qed

theorem accumulator_keys_witness:
  "distinct (map fst (merge_matches [] two_id_less))
   \<and> map_of (merge_matches [] two_id_less) (lit ''None'') = Some (listing None (lit ''300'') yes None)
   \<and> length (filter id_less (merge_matches [] two_id_less)) \<le> 1"
proof -
  have a: "distinct (map fst ([] :: (pystr \<times> item) list))" by simp
  have b: "item_id (listing None (lit ''300'') yes None) = None" by (simp add: listing_def)
  have c: "two_id_less = [listing None (lit ''100'') yes None] @ [listing None (lit ''300'') yes None]"
    by (simp add: two_id_less_def)
  from accumulator_keys [where acc = "[]" and ms = "[listing None (lit ''100'') yes None]"
      and batches = "[two_id_less]" and m = "listing None (lit ''300'') yes None"] a b c
  show ?thesis by simp
qed

end
